theory Spec2Isabelle
  imports Complex_Main "HOL-Library.AList"
begin

section \<open>Moltbot Analytics: the data collector \<open>collect_stats.py\<close>\<close>

text \<open>
  The collector polls the forum API (two GET requests per community) and the repository
  API (one GET request), sums the per-community numbers, computes deltas against the
  previously written \<open>data.json\<close>, writes the new \<open>data.json\<close> and appends one
  entry to \<open>history.json\<close>, which is cut to its last 1000 entries.

  Everything outside the program is an input of the model: the HTTP responses, the
  clock and the two files. Python is dynamically typed, so a JSON field that should
  hold a number may hold \<open>null\<close>; arithmetic on \<open>None\<close> raises \<open>TypeError\<close>.
  Inside \<open>fetch_subreddit_stats\<close> the \<open>try/except\<close> turns every exception into
  the result \<open>None\<close>; inside \<open>collect_all_stats\<close> nothing catches it and the
  run ends without writing a file.
\<close>

subsection \<open>JSON values and HTTP responses\<close>

text \<open>
  The value of a numeric JSON field: \<open>null\<close> or a number. Counts and scores are
  integers, as both APIs deliver them; timestamps are rationals (seconds since the
  epoch with a fraction). Other JSON types at these fields are outside the model.
\<close>

datatype 'a jval = JNull | JNum 'a

text \<open>\<open>d.get(k, 0)\<close> on the result \<open>d k\<close> of looking the key up.\<close>

fun get0 :: "'a::zero jval option \<Rightarrow> 'a jval" where
  "get0 None = JNum 0"
| "get0 (Some v) = v"

text \<open>\<open>d.get(k, default)\<close> for any default.\<close>

fun getd :: "'a option \<Rightarrow> 'a \<Rightarrow> 'a" where
  "getd None dflt = dflt"
| "getd (Some v) dflt = v"

text \<open>\<open>v or 0\<close>: \<open>None\<close> and \<open>0\<close> are falsy, every other number is kept.\<close>

fun or0 :: "int jval \<Rightarrow> int jval" where
  "or0 JNull = JNum 0"
| "or0 (JNum n) = (if n = 0 then JNum 0 else JNum n)"

text \<open>
  What \<open>requests.get\<close> followed by \<open>resp.json()\<close> can do: raise (no connection,
  timeout), or return a response with a status code. The payload is \<open>None\<close> when
  reading it raises (the body is not JSON, or not of the shape the code navigates).
\<close>

datatype 'a http = Raises | Resp int "'a option"

text \<open>The \<open>data\<close> object of \<open>about.json\<close> (\<open>{}\<close> when the key is absent).\<close>

type_synonym about = "string \<rightharpoonup> int jval"

text \<open>
  The \<open>data\<close> object of one child of the hot listing; a field is \<open>None\<close> when its
  key is absent.
\<close>

record post =
  created_utc :: "rat jval option"
  num_comments :: "int jval option"
  score :: "int jval option"

subsection \<open>The forum fetcher\<close>

text \<open>
  Python's \<open>round\<close> on one argument: the nearest integer, a tie going to the even
  one. The quotient \<open>upvotes_24h / max(posts_24h, 1)\<close> is a true division of two
  integers; it is modelled exactly, as a rational. Python computes a double nearest
  to the exact quotient; rounding that double gives the same integer as rounding the
  exact quotient as long as \<open>\<bar>upvotes_24h\<bar> + 2 * max(posts_24h, 1) < 2 ^ 52\<close>,
  which is proved below (\<open>double_quotient_rounds_alike\<close>).
\<close>

definition py_round :: "rat \<Rightarrow> int" where
  "py_round x =
     (let f = \<lfloor>x\<rfloor>; d = x - of_int f
      in if d < 1 / 2 then f
         else if 1 / 2 < d then f + 1
         else if even f then f else f + 1)"

text \<open>
  The loop over \<open>posts_data\<close>. The state is
  \<open>(posts_24h, comments_24h, upvotes_24h, top_score)\<close>, written
  \<open>(posts, comments_24h, upvotes_24h, top_sc)\<close>; the result is \<open>None\<close>
  when the body raises \<open>TypeError\<close>: a \<open>null\<close> creation time in the comparison,
  a \<open>null\<close> comment count or score of a qualifying post in the addition.
\<close>

fun count_posts :: "rat \<Rightarrow> post list \<Rightarrow> int \<times> int \<times> int \<times> int \<Rightarrow> (int \<times> int \<times> int \<times> int) option" where
  "count_posts day_ago [] st = Some st"
| "count_posts day_ago (p # ps) (posts, comments_24h, upvotes_24h, top_sc) =
     (case get0 (created_utc p) of
        JNull \<Rightarrow> None
      | JNum created \<Rightarrow>
          if created > day_ago then
            (case get0 (num_comments p) of
               JNull \<Rightarrow> None
             | JNum c \<Rightarrow>
                 (case get0 (score p) of
                    JNull \<Rightarrow> None
                  | JNum s \<Rightarrow>
                      count_posts day_ago ps
                        (posts + 1, comments_24h + c, upvotes_24h + s, max top_sc s)))
          else count_posts day_ago ps (posts, comments_24h, upvotes_24h, top_sc))"

record stats =
  name :: string
  key :: string
  subscribers :: "int jval"
  active :: "int jval"
  posts_24h :: int
  comments :: int
  avg_score :: int
  total_upvotes :: int
  top_score :: int

text \<open>
  \<open>posts_data\<close>: the children of the hot listing, or \<open>[]\<close> when the status
  is not 200 (the body is not read then).
\<close>

definition posts_data_of :: "post list http \<Rightarrow> post list option" where
  "posts_data_of hot =
     (case hot of
        Raises \<Rightarrow> None
      | Resp status_code body \<Rightarrow> if status_code = 200 then body else Some [])"

text \<open>
  \<open>fetch_subreddit_stats\<close>, given the outcome of the two requests and the clock
  reading \<open>now\<close>. \<open>None\<close> is the unavailable result.
\<close>

definition fetch_subreddit_stats :: "string \<Rightarrow> about http \<Rightarrow> post list http \<Rightarrow> rat \<Rightarrow> stats option" where
  "fetch_subreddit_stats subreddit about_r hot_r now =
     (case about_r of
        Raises \<Rightarrow> None
      | Resp status_code body \<Rightarrow>
          if status_code \<noteq> 200 then None
          else
            (case body of
               None \<Rightarrow> None
             | Some about \<Rightarrow>
                 (case posts_data_of hot_r of
                    None \<Rightarrow> None
                  | Some posts_data \<Rightarrow>
                      (case count_posts (now - 86400) posts_data (0, 0, 0, 0) of
                         None \<Rightarrow> None
                       | Some (posts, comments_24h, upvotes_24h, top_sc) \<Rightarrow>
                           Some \<lparr>name = ''r/'' @ subreddit,
                                 key = subreddit,
                                 subscribers = get0 (about ''subscribers''),
                                 active = or0 (get0 (about ''accounts_active'')),
                                 posts_24h = posts,
                                 comments = comments_24h,
                                 avg_score = py_round (of_int upvotes_24h / of_int (max posts 1)),
                                 total_upvotes = upvotes_24h,
                                 top_score = top_sc\<rparr>))))"

subsection \<open>The repository fetcher\<close>

type_synonym repo_body = "string \<rightharpoonup> int jval"

record repo =
  stars :: "int jval"
  forks :: "int jval"
  open_issues :: "int jval"

definition fetch_github_stats :: "repo_body http \<Rightarrow> repo option" where
  "fetch_github_stats resp =
     (case resp of
        Raises \<Rightarrow> None
      | Resp status_code body \<Rightarrow>
          if status_code \<noteq> 200 then None
          else
            (case body of
               None \<Rightarrow> None
             | Some d \<Rightarrow>
                 Some \<lparr>stars = get0 (d ''stargazers_count''),
                       forks = get0 (d ''forks_count''),
                       open_issues = get0 (d ''open_issues_count'')\<rparr>))"

subsection \<open>The two files\<close>

text \<open>
  \<open>data.json\<close> as the next run reads it: the top-level keys that hold objects, and
  the numeric fields of these objects (\<open>doc ''reddit''\<close> is the object at key
  \<open>reddit\<close>, if any). The strings and the list of communities are never read back.
  An entry of \<open>history.json\<close> is a flat object: its keys in insertion order.
  A file is \<open>None\<close> when it is missing or does not parse. A file that parses to
  another shape than the one the program writes (a history that is not a list, a
  \<open>reddit\<close> key that holds no object) is outside the model.
\<close>

type_synonym json_doc = "string \<rightharpoonup> (string \<rightharpoonup> int jval)"

datatype hval = HStr string | HNum "int jval"

type_synonym history_entry = "(string \<times> hval) list"

record files =
  data_file :: "json_doc option"
  history_file :: "history_entry list option"

definition load_history :: "files \<Rightarrow> history_entry list" where
  "load_history fs = (case history_file fs of None \<Rightarrow> [] | Some h \<Rightarrow> h)"

definition load_previous_data :: "files \<Rightarrow> json_doc" where
  "load_previous_data fs = (case data_file fs of None \<Rightarrow> Map.empty | Some d \<Rightarrow> d)"

subsection \<open>The aggregator\<close>

definition SUBREDDITS :: "string list" where
  "SUBREDDITS = [''clawdbot'', ''moltbot'', ''moltbothub'', ''moltbothq'', ''moltbotcommunity'']"

text \<open>
  What one run observes: the responses to the two requests for each community and
  the clock reading inside that fetch, the response of the repository API, and the
  four formatted time strings.
\<close>

record world =
  about_resp :: "string \<Rightarrow> about http"
  hot_resp :: "string \<Rightarrow> post list http"
  utc_now :: "string \<Rightarrow> rat"
  github_resp :: "repo_body http"
  now_utc_str :: string
  now_local_str :: string
  now_iso :: string
  now_label :: string

datatype error = TypeError

text \<open>The call \<open>fetch_subreddit_stats(sub)\<close> in the world \<open>w\<close>.\<close>

definition fetch :: "world \<Rightarrow> string \<Rightarrow> stats option" where
  "fetch w sub = fetch_subreddit_stats sub (about_resp w sub) (hot_resp w sub) (utc_now w sub)"

text \<open>
  The loop over \<open>SUBREDDITS\<close>. The state is \<open>(subreddit_stats, total_subs,
  total_active, total_posts, total_comments, total_upvotes)\<close>. \<open>total_subs +=
  stats['subscribers']\<close> raises \<open>TypeError\<close> on \<open>None\<close>, and nothing catches it.
\<close>

fun sum_subreddits ::
  "world \<Rightarrow> string list \<Rightarrow> stats list \<times> int \<times> int \<times> int \<times> int \<times> int
     \<Rightarrow> error + (stats list \<times> int \<times> int \<times> int \<times> int \<times> int)" where
  "sum_subreddits w [] st = Inr st"
| "sum_subreddits w (sub # subs) (subreddit_stats, t_subs, t_active, t_posts, t_comments, t_upvotes) =
     (case fetch w sub of
        None \<Rightarrow>
          sum_subreddits w subs (subreddit_stats, t_subs, t_active, t_posts, t_comments, t_upvotes)
      | Some st \<Rightarrow>
          (case subscribers st of
             JNull \<Rightarrow> Inl TypeError
           | JNum s \<Rightarrow>
               (case active st of
                  JNull \<Rightarrow> Inl TypeError
                | JNum a \<Rightarrow>
                    sum_subreddits w subs
                      (subreddit_stats @ [st], t_subs + s, t_active + a, t_posts + posts_24h st,
                       t_comments + comments st, t_upvotes + total_upvotes st))))"

record reddit =
  total_subscribers :: int
  delta_subscribers :: int
  total_active :: int
  total_posts_24h :: int
  total_comments :: int
  total_upvotes :: int
  subreddits :: "stats list"

record github =
  stars :: int
  stars_delta :: int
  forks :: int
  forks_delta :: int
  open_issues :: "int jval"

record data =
  timestamp :: string
  timestamp_local :: string
  data_points :: int
  reddit :: reddit
  github :: github

text \<open>
  \<open>cur - prev_obj.get(k, cur)\<close>: the baseline is the current value when the key is
  absent; a \<open>null\<close> baseline raises.
\<close>

definition delta :: "int \<Rightarrow> int jval option \<Rightarrow> error + int" where
  "delta cur prev_field =
     (case getd prev_field (JNum cur) of JNull \<Rightarrow> Inl TypeError | JNum p \<Rightarrow> Inr (cur - p))"

text \<open>
  The repository part of the run: the fetched numbers, or zeros when the fetch is
  unavailable. After a successful fetch the progress line formats the stars and the
  forks with a thousands separator, which raises on \<open>None\<close>; so does the
  subtraction of the baseline.
\<close>

definition collect_github :: "repo option \<Rightarrow> (string \<rightharpoonup> int jval) \<Rightarrow> error + github" where
  "collect_github fetched prev_github =
     (let gh = (case fetched of
                  Some g \<Rightarrow> g
                | None \<Rightarrow> \<lparr>repo.stars = JNum 0, repo.forks = JNum 0, repo.open_issues = JNum 0\<rparr>)
      in case repo.stars gh of
           JNull \<Rightarrow> Inl TypeError
         | JNum s \<Rightarrow>
             (case repo.forks gh of
                JNull \<Rightarrow> Inl TypeError
              | JNum f \<Rightarrow>
                  (case delta s (prev_github ''stars'') of
                     Inl e \<Rightarrow> Inl e
                   | Inr sd \<Rightarrow>
                       (case delta f (prev_github ''forks'') of
                          Inl e \<Rightarrow> Inl e
                        | Inr fd \<Rightarrow>
                            Inr \<lparr>stars = s, stars_delta = sd, forks = f, forks_delta = fd,
                                 open_issues = repo.open_issues gh\<rparr>))))"

text \<open>\<open>json.dump(data, f)\<close>, as the next run will read it.\<close>

definition dump_data :: "data \<Rightarrow> json_doc" where
  "dump_data d =
     [''reddit'' \<mapsto>
        [''total_subscribers'' \<mapsto> JNum (total_subscribers (reddit d)),
         ''delta_subscribers'' \<mapsto> JNum (delta_subscribers (reddit d)),
         ''total_active'' \<mapsto> JNum (total_active (reddit d)),
         ''total_posts_24h'' \<mapsto> JNum (total_posts_24h (reddit d)),
         ''total_comments'' \<mapsto> JNum (total_comments (reddit d)),
         ''total_upvotes'' \<mapsto> JNum (total_upvotes (reddit d))],
      ''github'' \<mapsto>
        [''stars'' \<mapsto> JNum (stars (github d)),
         ''stars_delta'' \<mapsto> JNum (stars_delta (github d)),
         ''forks'' \<mapsto> JNum (forks (github d)),
         ''forks_delta'' \<mapsto> JNum (forks_delta (github d)),
         ''open_issues'' \<mapsto> open_issues (github d)]]"

text \<open>
  The history entry. \<open>entry[k] = v\<close> on a dict keeps the position of a key that
  is present and appends a new one, which is \<open>AList.update\<close>.
\<close>

fun add_subreddit :: "stats \<Rightarrow> history_entry \<Rightarrow> history_entry" where
  "add_subreddit st e =
     AList.update (key st @ ''_comments'') (HNum (JNum (comments st)))
       (AList.update (key st @ ''_upvotes'') (HNum (JNum (stats.total_upvotes st)))
          (AList.update (key st @ ''_posts'') (HNum (JNum (posts_24h st)))
             (AList.update (key st @ ''_active'') (HNum (active st))
                (AList.update (key st @ ''_subs'') (HNum (subscribers st)) e))))"

definition history_entry_of ::
  "world \<Rightarrow> stats list \<Rightarrow> int \<Rightarrow> int \<Rightarrow> int \<Rightarrow> int \<Rightarrow> int \<Rightarrow> github \<Rightarrow> history_entry" where
  "history_entry_of w subreddit_stats t_subs t_active t_posts t_comments t_upvotes gh =
     AList.update ''github_issues'' (HNum (open_issues gh))
       (AList.update ''github_forks'' (HNum (JNum (forks gh)))
          (AList.update ''github_stars'' (HNum (JNum (stars gh)))
             (fold add_subreddit subreddit_stats
                [(''timestamp'', HStr (now_iso w)),
                 (''time_local'', HStr (now_label w)),
                 (''reddit_total'', HNum (JNum t_subs)),
                 (''reddit_active'', HNum (JNum t_active)),
                 (''reddit_posts'', HNum (JNum t_posts)),
                 (''reddit_comments'', HNum (JNum t_comments)),
                 (''reddit_upvotes'', HNum (JNum t_upvotes))])))"

text \<open>\<open>history.append(entry)\<close>, then \<open>history[-1000:]\<close> when it is longer than 1000.\<close>

definition append_history :: "history_entry list \<Rightarrow> history_entry \<Rightarrow> history_entry list" where
  "append_history history entry =
     (let h = history @ [entry]
      in if length h > 1000 then drop (length h - 1000) h else h)"

text \<open>
  \<open>collect_all_stats\<close>: the snapshot it returns and the files it leaves, or the
  uncaught exception. No file is written before the snapshot is built.
\<close>

definition collect_all_stats :: "world \<Rightarrow> files \<Rightarrow> error + (data \<times> files)" where
  "collect_all_stats w fs =
     (let prev = load_previous_data fs;
          prev_reddit = getd (prev ''reddit'') Map.empty;
          prev_github = getd (prev ''github'') Map.empty
      in case sum_subreddits w SUBREDDITS ([], 0, 0, 0, 0, 0) of
           Inl e \<Rightarrow> Inl e
         | Inr (subreddit_stats, t_subs, t_active, t_posts, t_comments, t_upvotes) \<Rightarrow>
             (case collect_github (fetch_github_stats (github_resp w)) prev_github of
                Inl e \<Rightarrow> Inl e
              | Inr gh \<Rightarrow>
                  (case delta t_subs (prev_reddit ''total_subscribers'') of
                     Inl e \<Rightarrow> Inl e
                   | Inr d_subs \<Rightarrow>
                       (let d = \<lparr>timestamp = now_utc_str w,
                                  timestamp_local = now_local_str w,
                                  data_points = int (length (load_history fs)) + 1,
                                  reddit = \<lparr>total_subscribers = t_subs,
                                             delta_subscribers = d_subs,
                                             total_active = t_active,
                                             total_posts_24h = t_posts,
                                             total_comments = t_comments,
                                             total_upvotes = t_upvotes,
                                             subreddits = subreddit_stats\<rparr>,
                                  github = gh\<rparr>;
                            entry = history_entry_of w subreddit_stats t_subs t_active t_posts
                                      t_comments t_upvotes gh
                        in Inr (d, \<lparr>data_file = Some (dump_data d),
                                    history_file = Some (append_history (load_history fs) entry)\<rparr>)))))"

subsection \<open>Consecutive runs\<close>

text \<open>
  The scheduler starts one run after the other; each run reads the files the run
  before it left. An uncaught exception ends the sequence.
\<close>

fun consecutive_runs :: "world list \<Rightarrow> files \<Rightarrow> error + (data list \<times> files)" where
  "consecutive_runs [] fs = Inr ([], fs)"
| "consecutive_runs (w # ws) fs =
     (case collect_all_stats w fs of
        Inl e \<Rightarrow> Inl e
      | Inr (d, fs1) \<Rightarrow>
          (case consecutive_runs ws fs1 of
             Inl e \<Rightarrow> Inl e
           | Inr (ds, fs2) \<Rightarrow> Inr (d # ds, fs2)))"

subsection \<open>Notions of the specification\<close>

text \<open>The number at a field that holds one.\<close>

fun num_of :: "int jval \<Rightarrow> int" where
  "num_of JNull = 0"
| "num_of (JNum n) = n"

text \<open>
  A qualifying post: its creation time (0 when the key is absent) is strictly after
  the cutoff. Its comment count and its score are those the loop adds.
\<close>

definition qualifying :: "rat \<Rightarrow> post \<Rightarrow> bool" where
  "qualifying day_ago p =
     (case get0 (created_utc p) of JNull \<Rightarrow> False | JNum created \<Rightarrow> day_ago < created)"

definition post_comments :: "post \<Rightarrow> int" where
  "post_comments p = num_of (get0 (num_comments p))"

definition post_score :: "post \<Rightarrow> int" where
  "post_score p = num_of (get0 (score p))"

text \<open>
  The doubles: the rationals \<open>m * 2 ^ e\<close> with \<open>\<bar>m\<bar> < 2 ^ 53\<close> and
  \<open>-1074 \<le> e \<le> 971\<close>. The true division of two integers returns a double
  nearest to the exact quotient.
\<close>

definition is_double :: "rat \<Rightarrow> bool" where
  "is_double y \<longleftrightarrow>
     (\<exists>(m::int) (e::nat). \<bar>m\<bar> < 2 ^ 53 \<and>
        (e \<le> 1074 \<and> y = of_int m / 2 ^ e \<or> e \<le> 971 \<and> y = of_int m * 2 ^ e))"

definition nearest_double :: "rat \<Rightarrow> rat \<Rightarrow> bool" where
  "nearest_double x y \<longleftrightarrow> is_double y \<and> (\<forall>z. is_double z \<longrightarrow> \<bar>y - x\<bar> \<le> \<bar>z - x\<bar>)"

text \<open>
  The value the previous \<open>data.json\<close> holds at a field of one of its objects, if
  the file, the object and the field exist.
\<close>

definition previous :: "files \<Rightarrow> string \<Rightarrow> string \<Rightarrow> int jval option" where
  "previous fs obj field = getd (load_previous_data fs obj) Map.empty field"

text \<open>
  The metadata fetch of a community failed: the request raised, the status is not
  200, or the body cannot be read. The contribution of a fetch to a sum is the field
  of its result, and 0 when it has none.
\<close>

definition metadata_failed :: "about http \<Rightarrow> bool" where
  "metadata_failed a =
     (case a of Raises \<Rightarrow> True | Resp status_code body \<Rightarrow> status_code \<noteq> 200 \<or> body = None)"

fun contribution :: "(stats \<Rightarrow> int) \<Rightarrow> stats option \<Rightarrow> int" where
  "contribution field None = 0"
| "contribution field (Some r) = field r"

text \<open>
  Inputs on which no arithmetic meets \<open>null\<close>: the subscriber count of every
  community result and the fetched stars and forks are numbers; the three baselines
  in the previous \<open>data.json\<close> are numbers or absent.
\<close>

definition numeric_world :: "world \<Rightarrow> bool" where
  "numeric_world w \<longleftrightarrow>
     (\<forall>st \<in> set (List.map_filter (fetch w) SUBREDDITS). subscribers st \<noteq> JNull) \<and>
     (case fetch_github_stats (github_resp w) of
        None \<Rightarrow> True
      | Some g \<Rightarrow> repo.stars g \<noteq> JNull \<and> repo.forks g \<noteq> JNull)"

definition numeric_files :: "files \<Rightarrow> bool" where
  "numeric_files fs \<longleftrightarrow>
     previous fs ''reddit'' ''total_subscribers'' \<noteq> Some JNull \<and>
     previous fs ''github'' ''stars'' \<noteq> Some JNull \<and>
     previous fs ''github'' ''forks'' \<noteq> Some JNull"

subsection \<open>Example inputs\<close>

text \<open>
  A post with all three fields present, and the inputs of the examples below: a
  metadata object whose active count is \<open>null\<close>, three posts around the cutoff of
  the clock reading 100000 (the cutoff is 13600), and the result of the fetch on them.
\<close>

definition mk_post :: "rat \<Rightarrow> int \<Rightarrow> int \<Rightarrow> post" where
  "mk_post t c s = \<lparr>created_utc = Some (JNum t), num_comments = Some (JNum c), score = Some (JNum s)\<rparr>"

definition example_about :: about where
  "example_about = [''subscribers'' \<mapsto> JNum 600, ''accounts_active'' \<mapsto> JNull]"

definition example_posts :: "post list" where
  "example_posts = [mk_post 99000 1 10, mk_post 13600 5 100, mk_post 13601 2 15]"

definition example_stats :: stats where
  "example_stats =
     \<lparr>name = ''r/moltbot'', key = ''moltbot'', subscribers = JNum 600, active = JNum 0,
      posts_24h = 2, comments = 3, avg_score = 12, stats.total_upvotes = 25, top_score = 15\<rparr>"

text \<open>A recent post with a negative score, and a metadata object whose subscriber count is \<open>null\<close>.\<close>

definition negative_post :: post where
  "negative_post = mk_post 99000 0 (- 5)"

definition null_subscribers_about :: about where
  "null_subscribers_about = [''subscribers'' \<mapsto> JNull, ''accounts_active'' \<mapsto> JNum 5]"

text \<open>
  A run as in the end-to-end example of the specification: \<open>moltbot\<close> answers with
  the example above, \<open>clawdbot\<close> answers 404, the other communities cannot be
  reached; the repository has 50 stars. The previous snapshot has 1000 subscribers,
  40 stars and 7 forks, and the history has two entries.
\<close>

definition example_world :: world where
  "example_world =
     \<lparr>about_resp = (\<lambda>sub. if sub = ''moltbot'' then Resp 200 (Some example_about)
                          else if sub = ''clawdbot'' then Resp 404 None else Raises),
      hot_resp = (\<lambda>sub. Resp 200 (Some example_posts)),
      utc_now = (\<lambda>sub. 100000),
      github_resp = Resp 200 (Some [''stargazers_count'' \<mapsto> JNum 50, ''forks_count'' \<mapsto> JNum 7,
                                    ''open_issues_count'' \<mapsto> JNum 3]),
      now_utc_str = ''2026-01-31T04:00:00Z'',
      now_local_str = ''2026-01-31 12:00:00'',
      now_iso = ''2026-01-31T12:00:00+08:00'',
      now_label = ''01/31 12:00''\<rparr>"

definition example_files :: files where
  "example_files =
     \<lparr>data_file = Some [''reddit'' \<mapsto> [''total_subscribers'' \<mapsto> JNum 1000],
                        ''github'' \<mapsto> [''stars'' \<mapsto> JNum 40, ''forks'' \<mapsto> JNum 7]],
      history_file = Some [[(''timestamp'', HStr ''first'')], [(''timestamp'', HStr ''second'')]]\<rparr>"

text \<open>
  The same world with the repository API answering 503; a first run, with no file;
  and a history that is full.
\<close>

definition github_down_world :: world where
  "github_down_world = example_world\<lparr>github_resp := Resp 503 None\<rparr>"

definition no_files :: files where
  "no_files = \<lparr>data_file = None, history_file = None\<rparr>"

definition full_files :: files where
  "full_files =
     \<lparr>data_file = None, history_file = Some (replicate 1000 [(''timestamp'', HStr ''old'')])\<rparr>"

text \<open>A world in which the metadata of \<open>moltbot\<close> has a \<open>null\<close> subscriber count.\<close>

definition null_subscribers_world :: world where
  "null_subscribers_world =
     example_world\<lparr>about_resp := (\<lambda>sub. if sub = ''moltbot'' then Resp 200 (Some null_subscribers_about)
                                          else Raises),
                   hot_resp := (\<lambda>sub. Resp 200 (Some []))\<rparr>"

section \<open>Properties of the forum fetcher\<close>

subsection \<open>The loop over the posts\<close>

lemma count_posts_Some:
  "count_posts d ps (n, c, u, t) = Some (n', c', u', t') \<Longrightarrow>
     n' = n + int (length (filter (qualifying d) ps)) \<and>
     c' = c + sum_list (map post_comments (filter (qualifying d) ps)) \<and>
     u' = u + sum_list (map post_score (filter (qualifying d) ps)) \<and>
     t' = Max (insert t (post_score ` set (filter (qualifying d) ps)))"
proof (induction ps arbitrary: n c u t)
  case Nil
  then show ?case by simp
next
  case (Cons p ps)
  show ?case
  proof (cases "get0 (created_utc p)")
    case JNull
    with Cons.prems show ?thesis by simp
  next
    case (JNum created)
    show ?thesis
    proof (cases "d < created")
      case False
      with JNum Cons.prems have "count_posts d ps (n, c, u, t) = Some (n', c', u', t')"
        by simp
      from Cons.IH [OF this] False JNum show ?thesis
        by (simp add: qualifying_def)
    next
      case True
      with JNum Cons.prems obtain k s where
        k: "get0 (num_comments p) = JNum k" and s: "get0 (score p) = JNum s" and
        rec: "count_posts d ps (n + 1, c + k, u + s, max t s) = Some (n', c', u', t')"
        by (auto split: jval.splits)
      have q: "qualifying d p" using True JNum by (simp add: qualifying_def)
      have m: "Max (insert (max t s) A) = Max (insert t (insert s A))" if "finite A" for A
        using that by (cases "A = {}") (simp_all add: max.assoc max.commute max.left_commute)
      from Cons.IH [OF rec] q k s show ?thesis
        by (simp add: post_comments_def post_score_def m insert_commute)
    qed
  qed
qed

lemma count_posts_total:
  "(\<exists>r. count_posts d ps (n, c, u, t) = Some r) \<longleftrightarrow>
     (\<forall>p \<in> set ps. get0 (created_utc p) \<noteq> JNull \<and>
        (qualifying d p \<longrightarrow> get0 (num_comments p) \<noteq> JNull \<and> get0 (score p) \<noteq> JNull))"
  by (induction ps arbitrary: n c u t) (simp_all add: qualifying_def split: jval.splits)


lemma fetch_SomeD:
  assumes "fetch_subreddit_stats sub a h now = Some r"
  obtains about posts_data n c u t where
    "a = Resp 200 (Some about)" "posts_data_of h = Some posts_data"
    "count_posts (now - 86400) posts_data (0, 0, 0, 0) = Some (n, c, u, t)"
    "r = \<lparr>name = ''r/'' @ sub, key = sub, subscribers = get0 (about ''subscribers''),
          active = or0 (get0 (about ''accounts_active'')), posts_24h = n, comments = c,
          avg_score = py_round (of_int u / of_int (max n 1)), stats.total_upvotes = u, top_score = t\<rparr>"
  using assms unfolding fetch_subreddit_stats_def
  by (auto split: http.splits if_splits option.splits prod.splits)

lemma fetch_fields:
  assumes "fetch_subreddit_stats sub (Resp 200 (Some about)) h now = Some r"
      and "posts_data_of h = Some posts_data"
  shows "name r = ''r/'' @ sub" "key r = sub"
    "subscribers r = get0 (about ''subscribers'')"
    "active r = or0 (get0 (about ''accounts_active''))"
    "posts_24h r = int (length (filter (qualifying (now - 86400)) posts_data))"
    "comments r = sum_list (map post_comments (filter (qualifying (now - 86400)) posts_data))"
    "stats.total_upvotes r = sum_list (map post_score (filter (qualifying (now - 86400)) posts_data))"
    "top_score r = Max (insert 0 (post_score ` set (filter (qualifying (now - 86400)) posts_data)))"
    "avg_score r = py_round (of_int (stats.total_upvotes r) / of_int (max (posts_24h r) 1))"
proof -
  from assms(1) obtain about' pd n c u t where
    a: "Resp 200 (Some about) = Resp 200 (Some about')" and pd: "posts_data_of h = Some pd" and
    cp: "count_posts (now - 86400) pd (0, 0, 0, 0) = Some (n, c, u, t)" and
    r: "r = \<lparr>name = ''r/'' @ sub, key = sub, subscribers = get0 (about' ''subscribers''),
          active = or0 (get0 (about' ''accounts_active'')), posts_24h = n, comments = c,
          avg_score = py_round (of_int u / of_int (max n 1)), stats.total_upvotes = u, top_score = t\<rparr>"
    by (rule fetch_SomeD)
  from a have [simp]: "about' = about" by simp
  from pd assms(2) have [simp]: "pd = posts_data" by simp
  note cs = count_posts_Some [OF cp]
  show "name r = ''r/'' @ sub" "key r = sub"
    "subscribers r = get0 (about ''subscribers'')"
    "active r = or0 (get0 (about ''accounts_active''))"
    "avg_score r = py_round (of_int (stats.total_upvotes r) / of_int (max (posts_24h r) 1))"
    using r by simp_all
  show "posts_24h r = int (length (filter (qualifying (now - 86400)) posts_data))"
    using r cs by simp
  show "comments r = sum_list (map post_comments (filter (qualifying (now - 86400)) posts_data))"
    using r cs by simp
  show "stats.total_upvotes r = sum_list (map post_score (filter (qualifying (now - 86400)) posts_data))"
    using r cs by simp
  show "top_score r = Max (insert 0 (post_score ` set (filter (qualifying (now - 86400)) posts_data)))"
    using r cs by simp
qed


lemma py_round_of_int: "py_round (of_int n) = n"
  by (simp add: py_round_def)

lemma py_round_tie_even: "x - of_int \<lfloor>x\<rfloor> = 1 / 2 \<Longrightarrow> even (py_round x)"
  by (simp add: py_round_def Let_def)

text \<open>The rounded quotient of two integers, in integer arithmetic.\<close>

lemma py_round_divide:
  assumes "0 < b"
  shows "py_round (of_int a / of_int b) =
     (if 2 * (a mod b) < b then a div b
      else if b < 2 * (a mod b) then a div b + 1
      else if even (a div b) then a div b else a div b + 1)"
proof -
  have f: "\<lfloor>rat_of_int a / rat_of_int b\<rfloor> = a div b"
    by (simp add: floor_divide_of_int_eq)
  have "rat_of_int a = of_int (a div b) * of_int b + of_int (a mod b)"
    by (metis div_mult_mod_eq of_int_add of_int_mult)
  then have d: "rat_of_int a / of_int b - of_int (a div b) = of_int (a mod b) / of_int b"
    using assms by (simp add: field_simps)
  have lt: "rat_of_int (a mod b) / of_int b < 1 / 2 \<longleftrightarrow> 2 * (a mod b) < b"
  proof -
    have "rat_of_int (a mod b) / of_int b < 1 / 2 \<longleftrightarrow> rat_of_int (2 * (a mod b)) < of_int b"
      using assms by (simp add: field_simps)
    then show ?thesis by (simp only: of_int_less_iff)
  qed
  have gt: "1 / 2 < rat_of_int (a mod b) / of_int b \<longleftrightarrow> b < 2 * (a mod b)"
  proof -
    have "1 / 2 < rat_of_int (a mod b) / of_int b \<longleftrightarrow> rat_of_int b < of_int (2 * (a mod b))"
      using assms by (simp add: field_simps)
    then show ?thesis by (simp only: of_int_less_iff)
  qed
  show ?thesis
    unfolding py_round_def Let_def f d lt gt by simp
qed

subsection \<open>The quotient as a double\<close>

text \<open>
  Between two neighbouring multiples of \<open>1 / 2\<close> the rounding is constant. A
  quotient \<open>a / b\<close> that is no multiple of \<open>1 / 2\<close> is at least \<open>1 / (2 * b)\<close>
  away from the next one, and as long as \<open>\<bar>a\<bar> + 2 * b < 2 ^ 52\<close> a double lies
  nearer to it than that. So the double that the division returns rounds to the same
  integer as the exact quotient, and the average score of the model is the one the
  program computes.
\<close>

lemma py_round_between_halves:
  assumes "of_int h < 2 * x" "2 * x < of_int h + 1"
  shows "py_round x = (h + 1) div 2"
proof -
  have hx: "\<lfloor>2 * x\<rfloor> = h" using assms by linarith
  show ?thesis
  proof (cases "even h")
    case True
    then obtain k where k: "h = 2 * k" by (elim evenE)
    with assms have "of_int k < x" "x < of_int k + 1 / 2" by simp_all
    then have "\<lfloor>x\<rfloor> = k" "x - of_int k < 1 / 2" by linarith+
    then show ?thesis by (simp add: py_round_def k)
  next
    case False
    then obtain k where k: "h = 2 * k + 1" by (elim oddE)
    with assms have "of_int k + 1 / 2 < x" "x < of_int k + 1" by simp_all
    then have "\<lfloor>x\<rfloor> = k" "1 / 2 < x - of_int k" by linarith+
    then show ?thesis by (simp add: py_round_def k)
  qed
qed

lemma is_double_grid:
  assumes "\<bar>m\<bar> < 2 ^ 53" "g \<le> 1074"
  shows "is_double (of_int m / 2 ^ g)"
  unfolding is_double_def using assms by blast


lemma half_integer_gap:
  fixes a b h :: int
  assumes b: "0 < b" and lo: "rat_of_int h < 2 * (of_int a / of_int b)"
    and hi: "2 * (rat_of_int a / of_int b) < of_int h + 1"
  shows "rat_of_int h + 1 / of_int b \<le> 2 * (of_int a / of_int b)"
    and "2 * (rat_of_int a / of_int b) + 1 / of_int b \<le> of_int h + 1"
proof -
  have B: "0 < rat_of_int b" using b by simp
  have q: "2 * (rat_of_int a / of_int b) * of_int b = of_int (2 * a)" using B by simp
  from lo B have "rat_of_int h * of_int b < 2 * (of_int a / of_int b) * of_int b"
    by (rule mult_strict_right_mono)
  then have "rat_of_int (h * b) < of_int (2 * a)" unfolding q by simp
  then have "h * b < 2 * a" by (simp only: of_int_less_iff)
  then have "h * b + 1 \<le> 2 * a" by simp
  then have "rat_of_int (h * b + 1) \<le> of_int (2 * a)" by (simp only: of_int_le_iff)
  then have "rat_of_int (h * b + 1) \<le> 2 * (of_int a / of_int b) * of_int b"
    unfolding q .
  then have "rat_of_int (h * b + 1) / of_int b \<le> 2 * (of_int a / of_int b)"
    using B by (simp only: pos_divide_le_eq)
  moreover have "rat_of_int (h * b + 1) / of_int b = of_int h + 1 / of_int b"
    using B by (simp add: add_divide_distrib)
  ultimately show "rat_of_int h + 1 / of_int b \<le> 2 * (of_int a / of_int b)" by simp
  from hi B have "2 * (rat_of_int a / of_int b) * of_int b < (of_int h + 1) * of_int b"
    by (rule mult_strict_right_mono)
  then have "rat_of_int (2 * a) < of_int ((h + 1) * b)" unfolding q by simp
  then have "2 * a < (h + 1) * b" by (simp only: of_int_less_iff)
  then have "2 * a + 1 \<le> (h + 1) * b" by simp
  then have "rat_of_int (2 * a + 1) \<le> of_int ((h + 1) * b)" by (simp only: of_int_le_iff)
  then have "rat_of_int (2 * a + 1) \<le> (of_int h + 1) * of_int b" by simp
  then have "rat_of_int (2 * a + 1) / of_int b \<le> of_int h + 1"
    using B by (simp only: pos_divide_le_eq)
  moreover have "rat_of_int (2 * a + 1) / of_int b = 2 * (of_int a / of_int b) + 1 / of_int b"
    by (simp add: add_divide_distrib)
  ultimately show "2 * (rat_of_int a / of_int b) + 1 / of_int b \<le> of_int h + 1" by simp
qed


lemma power_two_above:
  fixes b :: int
  assumes "0 < b"
  obtains g :: nat where "b < 2 ^ g" "2 ^ g \<le> 2 * b"
proof -
  from assms have "1 \<le> nat b" by simp
  from ex_power_ivl1 [OF _ this, of 2] obtain n where
    n: "2 ^ n \<le> nat b" "nat b < 2 ^ (n + 1)" by auto
  from n(2) have "int (nat b) < int (2 ^ (n + 1))" by (simp only: of_nat_less_iff)
  with assms have 1: "b < 2 ^ (n + 1)" by simp
  from n(1) have "int (2 ^ n) \<le> int (nat b)" by (simp only: of_nat_le_iff)
  with assms have 2: "(2::int) ^ (n + 1) \<le> 2 * b" by simp
  from 1 2 show ?thesis by (rule that)
qed


lemma double_near_quotient:
  fixes a b :: int
  assumes b: "0 < b" and bound: "\<bar>a\<bar> + 2 * b < 2 ^ 52"
  shows "\<exists>z. is_double z \<and> \<bar>z - of_int a / of_int b\<bar> < 1 / (2 * of_int b)"
proof -
  define q :: rat where "q = of_int a / of_int b"
  have B: "0 < rat_of_int b" using b by simp
  from b obtain g :: nat where g1: "b < 2 ^ g" and g2: "2 ^ g \<le> 2 * b"
    by (rule power_two_above)
  from g1 have "rat_of_int b < of_int (2 ^ g)" by (simp only: of_int_less_iff)
  then have G1: "rat_of_int b < 2 ^ g" by simp
  from g2 have "rat_of_int (2 ^ g) \<le> of_int (2 * b)" by (simp only: of_int_le_iff)
  then have G2: "(2::rat) ^ g \<le> 2 * of_int b" by simp
  have P: "0 < (2::rat) ^ g" by simp
  have p53: "(2::int) ^ 53 = 2 * 2 ^ 52" "(0::int) < 2 ^ 52" by simp_all
  have "\<bar>a\<bar> \<ge> 0" by simp
  with g2 bound have "(2::int) ^ g < 2 ^ 52" by linarith
  with p53 have "(2::int) ^ g < 2 ^ 53" by linarith
  then have "g < 53" by (simp only: power_strict_increasing_iff)
  then have gle: "g \<le> 1074" by simp
  define m where "m = round (q * 2 ^ g)"
  have near: "\<bar>of_int m - q * 2 ^ g\<bar> \<le> 1 / 2"
    unfolding m_def by (rule of_int_round_abs_le)
  have "\<bar>q\<bar> * 2 ^ g \<le> \<bar>q\<bar> * (2 * of_int b)"
    by (rule mult_left_mono [OF G2]) simp
  also have "\<bar>q\<bar> * (2 * of_int b) = 2 * \<bar>rat_of_int a\<bar>"
    using B by (simp add: q_def)
  finally have "\<bar>q\<bar> * 2 ^ g \<le> 2 * \<bar>rat_of_int a\<bar>" .
  moreover have "\<bar>q * 2 ^ g\<bar> = \<bar>q\<bar> * 2 ^ g" by (simp add: abs_mult)
  ultimately have qg: "\<bar>q * 2 ^ g\<bar> \<le> 2 * \<bar>rat_of_int a\<bar>" by simp
  from near qg have "\<bar>rat_of_int m\<bar> \<le> 2 * \<bar>rat_of_int a\<bar> + 1 / 2" by linarith
  then have "\<bar>rat_of_int m\<bar> < 2 * \<bar>rat_of_int a\<bar> + 1" by linarith
  then have "rat_of_int \<bar>m\<bar> < of_int (2 * \<bar>a\<bar> + 1)" by simp
  then have "\<bar>m\<bar> < 2 * \<bar>a\<bar> + 1" by (simp only: of_int_less_iff)
  with bound b p53 have msmall: "\<bar>m\<bar> < 2 ^ 53" by linarith
  have dbl: "is_double (of_int m / 2 ^ g)"
    by (rule is_double_grid [OF msmall gle])
  have "of_int m / 2 ^ g - q = (of_int m - q * 2 ^ g) / 2 ^ g"
    by (simp add: diff_divide_distrib)
  then have "\<bar>of_int m / 2 ^ g - q\<bar> = \<bar>of_int m - q * 2 ^ g\<bar> / 2 ^ g"
    by (simp only: abs_divide) simp
  also have "\<dots> \<le> (1 / 2) / 2 ^ g"
    by (rule divide_right_mono [OF near]) simp
  also have "\<dots> < (1 / 2) / of_int b"
    by (rule divide_strict_left_mono [OF G1]) (use B in simp_all)
  finally have "\<bar>of_int m / 2 ^ g - q\<bar> < 1 / (2 * of_int b)" by simp
  with dbl show ?thesis unfolding q_def by blast
qed


lemma double_quotient_rounds_alike:
  fixes a b :: int
  assumes nd: "nearest_double (of_int a / of_int b) y"
    and b: "0 < b" and bound: "\<bar>a\<bar> + 2 * b < 2 ^ 52"
  shows "py_round y = py_round (of_int a / of_int b)"
proof -
  define q :: rat where "q = of_int a / of_int b"
  have B: "0 < rat_of_int b" using b by simp
  from nd have near: "\<bar>y - q\<bar> \<le> \<bar>z - q\<bar>" if "is_double z" for z
    using that by (simp add: nearest_double_def q_def)
  define h where "h = \<lfloor>2 * q\<rfloor>"
  show ?thesis
  proof (cases "2 * q = of_int h")
    case True
    have "\<bar>q\<bar> = \<bar>rat_of_int a\<bar> / of_int b" using B by (simp add: q_def)
    also have "\<dots> \<le> \<bar>rat_of_int a\<bar> / 1"
      by (rule divide_left_mono) (use b in simp_all)
    finally have qa: "\<bar>q\<bar> \<le> \<bar>rat_of_int a\<bar>" by simp
    have "\<bar>rat_of_int h\<bar> = 2 * \<bar>q\<bar>" unfolding True [symmetric] by (simp add: abs_mult)
    with qa have "\<bar>rat_of_int h\<bar> \<le> 2 * \<bar>rat_of_int a\<bar>" by linarith
    then have "rat_of_int \<bar>h\<bar> \<le> of_int (2 * \<bar>a\<bar>)" by simp
    then have "\<bar>h\<bar> \<le> 2 * \<bar>a\<bar>" by (simp only: of_int_le_iff)
    moreover have "(2::int) ^ 53 = 2 * 2 ^ 52" by simp
    ultimately have "\<bar>h\<bar> < 2 ^ 53" using bound b by linarith
    then have "is_double (of_int h / 2 ^ 1)" by (rule is_double_grid) simp
    moreover have "rat_of_int h / 2 ^ 1 = q" unfolding True [symmetric] by simp
    ultimately have "is_double q" by simp
    from near [OF this] have "y = q" by simp
    then show ?thesis by (simp add: q_def)
  next
    case False
    have "of_int h \<le> 2 * q" "2 * q < of_int h + 1" unfolding h_def by linarith+
    with False have lo: "of_int h < 2 * q" and hi: "2 * q < of_int h + 1" by simp_all
    have gap: "rat_of_int h + 1 / of_int b \<le> 2 * q" "2 * q + 1 / of_int b \<le> of_int h + 1"
      using half_integer_gap [OF b, of h a] lo hi unfolding q_def by blast+
    from double_near_quotient [OF b bound] obtain z where
      "is_double z" "\<bar>z - q\<bar> < 1 / (2 * of_int b)" unfolding q_def by blast
    with near [of z] have close: "\<bar>y - q\<bar> < 1 / (2 * of_int b)" by simp
    define r where "r = 1 / rat_of_int b"
    have "1 / (2 * rat_of_int b) = r / 2" by (simp add: r_def)
    with close have "\<bar>y - q\<bar> < r / 2" by simp
    moreover from gap have "rat_of_int h + r \<le> 2 * q" "2 * q + r \<le> of_int h + 1"
      by (simp_all add: r_def)
    ultimately have "of_int h < 2 * y" "2 * y < of_int h + 1" by linarith+
    then have "py_round y = (h + 1) div 2" by (rule py_round_between_halves)
    moreover from lo hi have "py_round q = (h + 1) div 2" by (rule py_round_between_halves)
    ultimately show ?thesis by (simp add: q_def)
  qed
qed

lemma avg_score_of_double:
  assumes "fetch_subreddit_stats sub a h now = Some r"
    and "nearest_double (of_int (stats.total_upvotes r) / of_int (max (posts_24h r) 1)) y"
    and "\<bar>stats.total_upvotes r\<bar> + 2 * max (posts_24h r) 1 < 2 ^ 52"
  shows "avg_score r = py_round y"
proof -
  from assms(1) have "avg_score r = py_round (of_int (stats.total_upvotes r) / of_int (max (posts_24h r) 1))"
    by (rule fetch_SomeD) simp
  also have "\<dots> = py_round y"
    by (rule double_quotient_rounds_alike [symmetric, OF assms(2) _ assms(3)]) simp
  finally show ?thesis .
qed

subsection \<open>The examples\<close>

lemma py_round_25_2: "py_round (25 / 2) = 12"
  by code_simp

lemma mk_post_simps:
  "post_score (mk_post t c s) = s" "post_comments (mk_post t c s) = c"
  "qualifying d (mk_post t c s) = (d < t)"
  by (simp_all add: post_score_def post_comments_def qualifying_def mk_post_def)

lemma example_fetch:
  "fetch_subreddit_stats ''moltbot'' (Resp 200 (Some example_about)) (Resp 200 (Some example_posts))
     100000 = Some example_stats"
  by (simp add: fetch_subreddit_stats_def posts_data_of_def example_about_def example_posts_def
      mk_post_def example_stats_def py_round_25_2)

lemma example_qualifying:
  "filter (qualifying (100000 - 86400)) example_posts = [mk_post 99000 1 10, mk_post 13601 2 15]"
  by (simp add: example_posts_def qualifying_def mk_post_def)

subsection \<open>The average score\<close>



subsection \<open>The top score\<close>

text \<open>
  Claim C4, as stated, fails: \<open>top_score\<close> is a running maximum that starts at 0,
  so a single qualifying post of score \<open>-5\<close> gives \<open>top_score = 0\<close>, not the
  maximum \<open>-5\<close> of the qualifying scores.
\<close>

theorem top_score_max_counterexample:
  "map_option top_score
     (fetch_subreddit_stats ''moltbot'' (Resp 200 (Some example_about))
        (Resp 200 (Some [negative_post])) 100000) = Some 0 \<and>
   filter (qualifying (100000 - 86400)) [negative_post] = [negative_post] \<and>
   Max (post_score ` set (filter (qualifying (100000 - 86400)) [negative_post])) = - 5"
  by (simp add: fetch_subreddit_stats_def posts_data_of_def example_about_def negative_post_def
      mk_post_def qualifying_def post_score_def py_round_def)

text \<open>
  Claim C4, amended. The \<open>top_score\<close> of every community result is the maximum of 0
  and the scores of the qualifying posts. It is the maximum single-post score as soon
  as one qualifying post has a score of at least 0, and it is 0 when no post qualifies.
\<close>

theorem top_score_max0:
  "fetch_subreddit_stats sub a h now = Some r \<Longrightarrow> posts_data_of h = Some posts_data \<Longrightarrow>
     top_score r = Max (insert 0 (post_score ` set (filter (qualifying (now - 86400)) posts_data))) \<and>
     ((\<exists>p \<in> set (filter (qualifying (now - 86400)) posts_data). 0 \<le> post_score p) \<longrightarrow>
        top_score r = Max (post_score ` set (filter (qualifying (now - 86400)) posts_data))) \<and>
     (filter (qualifying (now - 86400)) posts_data = [] \<longrightarrow> top_score r = 0)"
proof -
  assume f: "fetch_subreddit_stats sub a h now = Some r" and h: "posts_data_of h = Some posts_data"
  define S where "S = post_score ` set (filter (qualifying (now - 86400)) posts_data)"
  have fin: "finite S" by (simp add: S_def)
  from f obtain about where "a = Resp 200 (Some about)" by (rule fetch_SomeD)
  with f h have top: "top_score r = Max (insert 0 S)"
    unfolding S_def by (simp add: fetch_fields(8))
  have nonneg: "Max (insert 0 S) = Max S" if "\<exists>x \<in> S. 0 \<le> x"
  proof -
    from that obtain x where x: "x \<in> S" "0 \<le> x" by blast
    then have "S \<noteq> {}" by blast
    moreover have "0 \<le> Max S" using x fin Max_ge order_trans by blast
    ultimately show ?thesis using fin by (simp add: max_def)
  qed
  show ?thesis
  proof (intro conjI impI)
    show "top_score r = Max (insert 0 (post_score ` set (filter (qualifying (now - 86400)) posts_data)))"
      using top by (simp add: S_def)
    show "top_score r = Max (post_score ` set (filter (qualifying (now - 86400)) posts_data))"
      if "\<exists>p \<in> set (filter (qualifying (now - 86400)) posts_data). 0 \<le> post_score p"
    proof -
      from that have "\<exists>x \<in> S. 0 \<le> x" unfolding S_def by blast
      from nonneg [OF this] top show ?thesis by (simp add: S_def)
    qed
    show "top_score r = 0" if "filter (qualifying (now - 86400)) posts_data = []"
      using top that by (simp add: S_def)
  qed
qed

text \<open>
  Witness for C4: the example fetch (qualifying scores 10 and 15, top score 15) and a
  fetch whose only post is at the cutoff (top score 0).
\<close>

theorem top_score_max0_witness:
  "top_score example_stats = Max (insert 0 (post_score ` set [mk_post 99000 1 10, mk_post 13601 2 15])) \<and>
   top_score example_stats = Max (post_score ` set [mk_post 99000 1 10, mk_post 13601 2 15]) \<and>
   top_score example_stats = 15 \<and>
   top_score (the (fetch_subreddit_stats ''moltbot'' (Resp 200 (Some example_about))
                     (Resp 200 (Some [mk_post 13600 5 100])) 100000)) = 0"
proof -
  have p: "posts_data_of (Resp 200 (Some example_posts)) = Some example_posts"
    by (simp add: posts_data_of_def)
  have q: "\<exists>p \<in> set (filter (qualifying (100000 - 86400)) example_posts). 0 \<le> post_score p"
    unfolding example_qualifying by (simp add: mk_post_simps)
  have z: "fetch_subreddit_stats ''moltbot'' (Resp 200 (Some example_about))
             (Resp 200 (Some [mk_post 13600 5 100])) 100000
             = Some \<lparr>name = ''r/moltbot'', key = ''moltbot'', subscribers = JNum 600, active = JNum 0,
                 posts_24h = 0, comments = 0, avg_score = 0, stats.total_upvotes = 0, top_score = 0\<rparr>"
    by (simp add: fetch_subreddit_stats_def posts_data_of_def example_about_def py_round_def mk_post_def)
  have pz: "posts_data_of (Resp 200 (Some [mk_post 13600 5 100])) = Some [mk_post 13600 5 100]"
    by (simp add: posts_data_of_def)
  have e: "filter (qualifying (100000 - 86400)) [mk_post 13600 5 100] = []"
    by (simp add: mk_post_simps)
  from top_score_max0 [OF example_fetch p] q top_score_max0 [OF z pz] e show ?thesis
    unfolding example_qualifying by (simp add: example_stats_def z mk_post_simps)
qed

subsection \<open>The 24 hour window\<close>



subsection \<open>A hot listing that is not available\<close>

text \<open>
  Claim C9. When the metadata request succeeds and the hot listing answers with a
  status other than 200, the result is populated: the metadata fields are reported
  and the post count, the comment count, the total score, the average and the top
  score are 0.
\<close>

theorem hot_failure_zero_posts:
  "status \<noteq> 200 \<Longrightarrow>
     fetch_subreddit_stats sub (Resp 200 (Some about)) (Resp status body) now =
       Some \<lparr>name = ''r/'' @ sub, key = sub,
             subscribers = get0 (about ''subscribers''),
             active = or0 (get0 (about ''accounts_active'')),
             posts_24h = 0, comments = 0, avg_score = 0, stats.total_upvotes = 0, top_score = 0\<rparr>"
  by (simp add: fetch_subreddit_stats_def posts_data_of_def py_round_def)

text \<open>Witness for C9: the example metadata and a hot listing that answers 503.\<close>

theorem hot_failure_zero_posts_witness:
  "fetch_subreddit_stats ''moltbot'' (Resp 200 (Some example_about)) (Resp 503 None) 100000 =
     Some \<lparr>name = ''r/moltbot'', key = ''moltbot'', subscribers = JNum 600, active = JNum 0,
           posts_24h = 0, comments = 0, avg_score = 0, stats.total_upvotes = 0, top_score = 0\<rparr>"
  using hot_failure_zero_posts [of 503 "''moltbot''" example_about None 100000]
  by (simp add: example_about_def)

subsection \<open>Null in the metadata\<close>

text \<open>
  The active count of a result is always a number: \<open>or 0\<close> replaces \<open>null\<close>.
  An absent subscriber count is 0.
\<close>

lemma or0_number: "\<exists>n. or0 v = JNum n"
  by (cases v) simp_all

lemma active_is_number:
  "fetch_subreddit_stats sub a h now = Some r \<Longrightarrow> \<exists>n. active r = JNum n"
  by (erule fetch_SomeD) (simp add: or0_number)

lemma absent_subscribers_zero:
  "fetch_subreddit_stats sub (Resp 200 (Some about)) h now = Some r \<Longrightarrow>
     about ''subscribers'' = None \<Longrightarrow> subscribers r = JNum 0"
  by (erule fetch_SomeD) simp

lemma null_active_zero:
  "fetch_subreddit_stats sub (Resp 200 (Some about)) h now = Some r \<Longrightarrow>
     about ''accounts_active'' = None \<or> about ''accounts_active'' = Some JNull \<Longrightarrow>
     active r = JNum 0"
  by (erule fetch_SomeD) auto

text \<open>
  Claim C10 at a metadata object whose subscriber count is \<open>null\<close>: the subscriber
  count has no \<open>or 0\<close>, and the populated result carries \<open>null\<close>.
\<close>

theorem null_subscribers_kept:
  "fetch_subreddit_stats ''moltbot'' (Resp 200 (Some null_subscribers_about)) (Resp 200 (Some [])) 100000 =
     Some \<lparr>name = ''r/moltbot'', key = ''moltbot'', subscribers = JNull, active = JNum 5,
           posts_24h = 0, comments = 0, avg_score = 0, stats.total_upvotes = 0, top_score = 0\<rparr>"
  by (simp add: fetch_subreddit_stats_def posts_data_of_def py_round_def null_subscribers_about_def)

section \<open>Properties of the aggregator\<close>

subsection \<open>Deltas, the loop over the communities, the repository part\<close>

lemma delta_simps:
  "delta cur None = Inr 0"
  "delta cur (Some (JNum p)) = Inr (cur - p)"
  "delta cur (Some JNull) = Inl TypeError"
  by (simp_all add: delta_def)

lemma delta_Inr:
  "delta cur prev_field = Inr x \<Longrightarrow> x = (case prev_field of None \<Rightarrow> 0 | Some v \<Rightarrow> cur - num_of v)"
  by (cases prev_field) (auto simp: delta_def split: jval.splits)

lemma delta_Inr_iff: "(\<exists>x. delta cur prev_field = Inr x) \<longleftrightarrow> prev_field \<noteq> Some JNull"
  by (cases prev_field) (auto simp: delta_def split: jval.splits)

lemma sum_subreddits_Inr:
  "sum_subreddits w subs (ss, a, b, c, e, f) = Inr (ss', a', b', c', e', f') \<Longrightarrow>
     ss' = ss @ List.map_filter (fetch w) subs \<and>
     a' = a + sum_list (map (num_of \<circ> subscribers) (List.map_filter (fetch w) subs)) \<and>
     b' = b + sum_list (map (num_of \<circ> active) (List.map_filter (fetch w) subs)) \<and>
     c' = c + sum_list (map posts_24h (List.map_filter (fetch w) subs)) \<and>
     e' = e + sum_list (map comments (List.map_filter (fetch w) subs)) \<and>
     f' = f + sum_list (map stats.total_upvotes (List.map_filter (fetch w) subs)) \<and>
     (\<forall>r \<in> set (List.map_filter (fetch w) subs). subscribers r \<noteq> JNull \<and> active r \<noteq> JNull)"
proof (induction subs arbitrary: ss a b c e f)
  case Nil
  then show ?case by simp
next
  case (Cons sub subs)
  show ?case
  proof (cases "fetch w sub")
    case None
    with Cons.prems have "sum_subreddits w subs (ss, a, b, c, e, f) = Inr (ss', a', b', c', e', f')"
      by simp
    from Cons.IH [OF this] None show ?thesis by simp
  next
    case (Some st)
    with Cons.prems obtain s k where
      s: "subscribers st = JNum s" and k: "active st = JNum k" and
      rec: "sum_subreddits w subs
              (ss @ [st], a + s, b + k, c + posts_24h st, e + comments st, f + stats.total_upvotes st)
            = Inr (ss', a', b', c', e', f')"
      by (auto split: jval.splits)
    from Cons.IH [OF rec] Some s k show ?thesis by simp
  qed
qed

lemma sum_subreddits_total:
  "(\<exists>r. sum_subreddits w subs (ss, a, b, c, e, f) = Inr r) \<longleftrightarrow>
     (\<forall>st \<in> set (List.map_filter (fetch w) subs). subscribers st \<noteq> JNull)"
proof (induction subs arbitrary: ss a b c e f)
  case Nil
  then show ?case by simp
next
  case (Cons sub subs)
  show ?case
  proof (cases "fetch w sub")
    case None
    with Cons.IH [of ss a b c e f] show ?thesis by simp
  next
    case (Some st)
    then have "\<exists>n. active st = JNum n"
      unfolding fetch_def by (rule active_is_number)
    then obtain n where "active st = JNum n" ..
    with Some Cons.IH [of "ss @ [st]" "a + num_of (subscribers st)" "b + n" "c + posts_24h st"
        "e + comments st" "f + stats.total_upvotes st"]
    show ?thesis
      by (cases "subscribers st") simp_all
  qed
qed

lemma collect_github_None:
  "collect_github None pg = Inr gh \<Longrightarrow>
     stars gh = 0 \<and> forks gh = 0 \<and> open_issues gh = JNum 0 \<and>
     stars_delta gh = (case pg ''stars'' of None \<Rightarrow> 0 | Some v \<Rightarrow> - num_of v) \<and>
     forks_delta gh = (case pg ''forks'' of None \<Rightarrow> 0 | Some v \<Rightarrow> - num_of v)"
  by (auto simp: collect_github_def split: sum.splits option.splits dest!: delta_Inr)

subsection \<open>What a run that returns has computed\<close>

lemma collect_all_stats_InrD:
  assumes "collect_all_stats w fs = Inr (d, fs')"
  obtains ss t_subs t_active t_posts t_comments t_upvotes gh d_subs where
    "sum_subreddits w SUBREDDITS ([], 0, 0, 0, 0, 0) = Inr (ss, t_subs, t_active, t_posts, t_comments, t_upvotes)"
    "collect_github (fetch_github_stats (github_resp w)) (getd (load_previous_data fs ''github'') Map.empty) = Inr gh"
    "delta t_subs (previous fs ''reddit'' ''total_subscribers'') = Inr d_subs"
    "d = \<lparr>timestamp = now_utc_str w, timestamp_local = now_local_str w,
          data_points = int (length (load_history fs)) + 1,
          reddit = \<lparr>total_subscribers = t_subs, delta_subscribers = d_subs, total_active = t_active,
                     total_posts_24h = t_posts, total_comments = t_comments, total_upvotes = t_upvotes,
                     subreddits = ss\<rparr>,
          github = gh\<rparr>"
    "fs' = \<lparr>data_file = Some (dump_data d),
            history_file = Some (append_history (load_history fs)
               (history_entry_of w ss t_subs t_active t_posts t_comments t_upvotes gh))\<rparr>"
  using assms unfolding collect_all_stats_def previous_def Let_def
  by (auto split: sum.splits prod.splits)


subsection \<open>The history\<close>

lemma append_history_eq: "append_history h e = drop (length h + 1 - 1000) (h @ [e])"
  by (simp add: append_history_def Let_def)

lemma length_append_history: "length (append_history h e) = min 1000 (length h + 1)"
  by (simp add: append_history_eq)

lemma run_history:
  assumes "collect_all_stats w fs = Inr (d, fs')"
  shows "\<exists>e. history_file fs' = Some (append_history (load_history fs) e)"
  using assms by (rule collect_all_stats_InrD) auto

lemma run_history_length:
  assumes "collect_all_stats w fs = Inr (d, fs')"
  shows "length (load_history fs') = min 1000 (length (load_history fs) + 1)"
proof -
  from run_history [OF assms] obtain e where
    "history_file fs' = Some (append_history (load_history fs) e)" ..
  then show ?thesis by (simp add: load_history_def [of fs'] length_append_history)
qed

lemma run_data_points:
  assumes "collect_all_stats w fs = Inr (d, fs')"
  shows "data_points d = int (length (load_history fs)) + 1"
  using assms by (rule collect_all_stats_InrD) simp

text \<open>
  Claim C8. After the append the history has at most 1000 entries, whatever the
  history was: it is the last 1000 entries of the old history followed by the new
  entry. On a history of exactly 1000 entries the append drops the oldest entry and
  keeps the other 999 in their order, followed by the new entry; on a shorter history
  nothing is dropped. A run that returns has written such a history.
\<close>

theorem history_at_most_1000:
  "length (append_history h e) \<le> 1000 \<and>
   append_history h e = drop (length h + 1 - 1000) (h @ [e]) \<and>
   (length h = 1000 \<longrightarrow> append_history h e = tl h @ [e]) \<and>
   (length h < 1000 \<longrightarrow> append_history h e = h @ [e]) \<and>
   (collect_all_stats w fs = Inr (d, fs') \<longrightarrow>
      (\<exists>entry. history_file fs' = Some (append_history (load_history fs) entry)) \<and>
      length (load_history fs') \<le> 1000)"
proof (intro conjI impI)
  show "length (append_history h e) \<le> 1000"
    by (simp add: length_append_history)
  show "append_history h e = drop (length h + 1 - 1000) (h @ [e])"
    by (rule append_history_eq)
  show "append_history h e = tl h @ [e]" if "length h = 1000"
  proof -
    from that have "h \<noteq> []" by auto
    then have "drop 1 (h @ [e]) = tl h @ [e]" by (cases h) simp_all
    with that show ?thesis by (simp add: append_history_eq)
  qed
  show "append_history h e = h @ [e]" if "length h < 1000"
    using that by (simp add: append_history_eq)
next
  assume run: "collect_all_stats w fs = Inr (d, fs')"
  show "\<exists>entry. history_file fs' = Some (append_history (load_history fs) entry)"
    by (rule run_history [OF run])
  show "length (load_history fs') \<le> 1000"
    by (simp add: run_history_length [OF run])
qed

subsection \<open>The deltas\<close>

text \<open>
  Claim C6. In the snapshot of a run, \<open>delta_subscribers\<close> is the current total of
  subscribers minus the \<open>total_subscribers\<close> of the previous snapshot when the
  previous snapshot has that field, and 0 when it has not; in particular it is 0 when
  there is no previous snapshot.
\<close>

theorem delta_subscribers_against_previous:
  "collect_all_stats w fs = Inr (d, fs') \<Longrightarrow>
     delta_subscribers (reddit d) =
       (case previous fs ''reddit'' ''total_subscribers'' of
          None \<Rightarrow> 0
        | Some v \<Rightarrow> total_subscribers (reddit d) - num_of v) \<and>
     (\<forall>p. previous fs ''reddit'' ''total_subscribers'' = Some (JNum p) \<longrightarrow>
          delta_subscribers (reddit d) = total_subscribers (reddit d) - p) \<and>
     (data_file fs = None \<longrightarrow> delta_subscribers (reddit d) = 0)"
proof -
  assume run: "collect_all_stats w fs = Inr (d, fs')"
  then have eq: "delta_subscribers (reddit d) =
       (case previous fs ''reddit'' ''total_subscribers'' of
          None \<Rightarrow> 0
        | Some v \<Rightarrow> total_subscribers (reddit d) - num_of v)"
    by (rule collect_all_stats_InrD) (simp add: delta_Inr)
  have none: "previous fs ''reddit'' ''total_subscribers'' = None" if "data_file fs = None"
    using that by (simp add: previous_def load_previous_data_def)
  from eq none show ?thesis by simp
qed

text \<open>
  Claim C1, amended. When the repository fetch is unavailable, the snapshot has 0
  stars, 0 forks and 0 open issues. The two deltas are 0 minus the stars and the forks
  of the previous snapshot, where it has them, and 0 where it has not; they are both
  0 when there is no previous snapshot.
\<close>

theorem github_unavailable_zeros:
  "fetch_github_stats (github_resp w) = None \<Longrightarrow> collect_all_stats w fs = Inr (d, fs') \<Longrightarrow>
     stars (github d) = 0 \<and> forks (github d) = 0 \<and> open_issues (github d) = JNum 0 \<and>
     stars_delta (github d) =
       (case previous fs ''github'' ''stars'' of None \<Rightarrow> 0 | Some v \<Rightarrow> - num_of v) \<and>
     forks_delta (github d) =
       (case previous fs ''github'' ''forks'' of None \<Rightarrow> 0 | Some v \<Rightarrow> - num_of v) \<and>
     (data_file fs = None \<longrightarrow> stars_delta (github d) = 0 \<and> forks_delta (github d) = 0)"
proof -
  assume unavailable: "fetch_github_stats (github_resp w) = None"
    and run: "collect_all_stats w fs = Inr (d, fs')"
  from run obtain gh where
    gh: "collect_github (fetch_github_stats (github_resp w))
           (getd (load_previous_data fs ''github'') Map.empty) = Inr gh" and
    d: "github d = gh"
    by (rule collect_all_stats_InrD) simp
  note z = collect_github_None [OF gh [unfolded unavailable]]
  have none: "previous fs ''github'' f = None" if "data_file fs = None" for f
    using that by (simp add: previous_def load_previous_data_def)
  from z d none show ?thesis by (simp add: previous_def)
qed


subsection \<open>The totals\<close>

lemma fetch_key: "fetch w sub = Some r \<Longrightarrow> key r = sub"
  unfolding fetch_def by (erule fetch_SomeD) simp

lemma metadata_failed_fetch: "metadata_failed (about_resp w sub) \<Longrightarrow> fetch w sub = None"
  by (auto simp: metadata_failed_def fetch_def fetch_subreddit_stats_def split: http.splits)

lemma keys_map_filter:
  "map key (List.map_filter (fetch w) subs) = filter (\<lambda>sub. fetch w sub \<noteq> None) subs"
  by (induction subs) (auto simp: fetch_key)

lemma sum_map_filter:
  "sum_list (map field (List.map_filter (fetch w) subs)) =
     sum_list (map (\<lambda>sub. contribution field (fetch w sub)) subs)"
  by (induction subs) (auto split: option.splits)

lemma run_reddit:
  assumes "collect_all_stats w fs = Inr (d, fs')"
  shows "subreddits (reddit d) = List.map_filter (fetch w) SUBREDDITS"
    "total_subscribers (reddit d) = sum_list (map (num_of \<circ> subscribers) (subreddits (reddit d)))"
    "total_active (reddit d) = sum_list (map (num_of \<circ> active) (subreddits (reddit d)))"
    "total_posts_24h (reddit d) = sum_list (map posts_24h (subreddits (reddit d)))"
    "total_comments (reddit d) = sum_list (map comments (subreddits (reddit d)))"
    "reddit.total_upvotes (reddit d) = sum_list (map stats.total_upvotes (subreddits (reddit d)))"
    "\<forall>r \<in> set (subreddits (reddit d)). subscribers r \<noteq> JNull \<and> active r \<noteq> JNull"
proof -
  from assms obtain ss a b c e f where
    sum: "sum_subreddits w SUBREDDITS ([], 0, 0, 0, 0, 0) = Inr (ss, a, b, c, e, f)" and
    d: "subreddits (reddit d) = ss" "total_subscribers (reddit d) = a" "total_active (reddit d) = b"
       "total_posts_24h (reddit d) = c" "total_comments (reddit d) = e"
       "reddit.total_upvotes (reddit d) = f"
    by (rule collect_all_stats_InrD) simp
  note s = sum_subreddits_Inr [OF sum]
  show "subreddits (reddit d) = List.map_filter (fetch w) SUBREDDITS" using s d by simp
  show "total_subscribers (reddit d) = sum_list (map (num_of \<circ> subscribers) (subreddits (reddit d)))"
    using s d by simp
  show "total_active (reddit d) = sum_list (map (num_of \<circ> active) (subreddits (reddit d)))"
    using s d by simp
  show "total_posts_24h (reddit d) = sum_list (map posts_24h (subreddits (reddit d)))"
    using s d by simp
  show "total_comments (reddit d) = sum_list (map comments (subreddits (reddit d)))"
    using s d by simp
  show "reddit.total_upvotes (reddit d) = sum_list (map stats.total_upvotes (subreddits (reddit d)))"
    using s d by simp
  show "\<forall>r \<in> set (subreddits (reddit d)). subscribers r \<noteq> JNull \<and> active r \<noteq> JNull"
    using s d by simp
qed

text \<open>
  Claim C7. In the snapshot of a run, the list of communities holds the results of
  exactly the communities whose fetch is available, in the configured order, and each
  of the five totals is the sum of its field over this list; equally, the sum over
  all configured communities where an unavailable one contributes 0. A community
  whose metadata fetch failed is unavailable and no entry of the list has its key.
\<close>

theorem totals_over_available:
  "collect_all_stats w fs = Inr (d, fs') \<Longrightarrow>
     subreddits (reddit d) = List.map_filter (fetch w) SUBREDDITS \<and>
     map key (subreddits (reddit d)) = filter (\<lambda>sub. fetch w sub \<noteq> None) SUBREDDITS \<and>
     (\<forall>r \<in> set (subreddits (reddit d)). subscribers r \<noteq> JNull \<and> active r \<noteq> JNull) \<and>
     total_subscribers (reddit d) = sum_list (map (num_of \<circ> subscribers) (subreddits (reddit d))) \<and>
     total_active (reddit d) = sum_list (map (num_of \<circ> active) (subreddits (reddit d))) \<and>
     total_posts_24h (reddit d) = sum_list (map posts_24h (subreddits (reddit d))) \<and>
     total_comments (reddit d) = sum_list (map comments (subreddits (reddit d))) \<and>
     reddit.total_upvotes (reddit d) = sum_list (map stats.total_upvotes (subreddits (reddit d))) \<and>
     total_subscribers (reddit d) =
       sum_list (map (\<lambda>sub. contribution (num_of \<circ> subscribers) (fetch w sub)) SUBREDDITS) \<and>
     total_active (reddit d) =
       sum_list (map (\<lambda>sub. contribution (num_of \<circ> active) (fetch w sub)) SUBREDDITS) \<and>
     total_posts_24h (reddit d) =
       sum_list (map (\<lambda>sub. contribution posts_24h (fetch w sub)) SUBREDDITS) \<and>
     total_comments (reddit d) =
       sum_list (map (\<lambda>sub. contribution comments (fetch w sub)) SUBREDDITS) \<and>
     reddit.total_upvotes (reddit d) =
       sum_list (map (\<lambda>sub. contribution stats.total_upvotes (fetch w sub)) SUBREDDITS) \<and>
     (\<forall>sub. metadata_failed (about_resp w sub) \<longrightarrow>
        fetch w sub = None \<and> sub \<notin> key ` set (subreddits (reddit d)))"
proof -
  assume run: "collect_all_stats w fs = Inr (d, fs')"
  note r = run_reddit [OF run]
  have keys: "map key (subreddits (reddit d)) = filter (\<lambda>sub. fetch w sub \<noteq> None) SUBREDDITS"
    unfolding r(1) by (rule keys_map_filter)
  have absent: "fetch w sub = None \<and> sub \<notin> key ` set (subreddits (reddit d))"
    if "metadata_failed (about_resp w sub)" for sub
  proof -
    from that have none: "fetch w sub = None" by (rule metadata_failed_fetch)
    have "key ` set (subreddits (reddit d)) = set (map key (subreddits (reddit d)))" by simp
    also have "\<dots> = {s \<in> set SUBREDDITS. fetch w s \<noteq> None}" unfolding keys by simp
    finally show ?thesis using none by simp
  qed
  show ?thesis
  proof (intro conjI allI impI)
    show "total_subscribers (reddit d) =
       sum_list (map (\<lambda>sub. contribution (num_of \<circ> subscribers) (fetch w sub)) SUBREDDITS)"
      unfolding r(2) r(1) by (rule sum_map_filter)
    show "total_active (reddit d) =
       sum_list (map (\<lambda>sub. contribution (num_of \<circ> active) (fetch w sub)) SUBREDDITS)"
      unfolding r(3) r(1) by (rule sum_map_filter)
    show "total_posts_24h (reddit d) =
       sum_list (map (\<lambda>sub. contribution posts_24h (fetch w sub)) SUBREDDITS)"
      unfolding r(4) r(1) by (rule sum_map_filter)
    show "total_comments (reddit d) =
       sum_list (map (\<lambda>sub. contribution comments (fetch w sub)) SUBREDDITS)"
      unfolding r(5) r(1) by (rule sum_map_filter)
    show "reddit.total_upvotes (reddit d) =
       sum_list (map (\<lambda>sub. contribution stats.total_upvotes (fetch w sub)) SUBREDDITS)"
      unfolding r(6) r(1) by (rule sum_map_filter)
  qed (use r keys absent in \<open>simp_all\<close>)
qed

subsection \<open>The run counter\<close>

lemma consecutive_runs_data_points:
  "consecutive_runs ws fs = Inr (ds, fs') \<Longrightarrow>
     map data_points ds =
       map (\<lambda>k. if k = 0 then int (length (load_history fs)) + 1
                 else int (min 1000 (length (load_history fs) + k)) + 1) [0..<length ws]"
proof (induction ws arbitrary: fs ds)
  case Nil
  then show ?case by simp
next
  case (Cons w ws)
  from Cons.prems obtain d fs1 ds1 where
    run: "collect_all_stats w fs = Inr (d, fs1)" and
    rest: "consecutive_runs ws fs1 = Inr (ds1, fs')" and ds: "ds = d # ds1"
    by (auto split: sum.splits prod.splits)
  note len = run_history_length [OF run]
  have "map data_points ds1 =
          map (\<lambda>k. int (min 1000 (length (load_history fs) + Suc k)) + 1) [0..<length ws]"
    unfolding Cons.IH [OF rest] len by (rule map_cong) (auto simp: min_def)
  then have "map data_points ds1 =
          map (\<lambda>k. if k = 0 then int (length (load_history fs)) + 1
                 else int (min 1000 (length (load_history fs) + k)) + 1) (map Suc [0..<length ws])"
    by (simp add: comp_def)
  moreover have "[0..<length (w # ws)] = 0 # map Suc [0..<length ws]"
    by (simp add: upt_conv_Cons map_Suc_upt del: upt_Suc)
  ultimately show ?case
    unfolding ds by (simp add: run_data_points [OF run] del: upt_Suc)
qed


text \<open>
  Claim C2, amended. In every run \<open>data_points\<close> is the length of the history at the
  start of the run plus 1. Over consecutive runs that start from a history of \<open>n\<close>
  entries, \<open>n\<close> at most 1000, run number \<open>k\<close> (from 0) has
  \<open>data_points = min(1000, n + k) + 1\<close>: the values never decrease, and they are
  strictly increasing as long as the history stays within its bound
  (\<open>n\<close> plus the number of runs is at most 1001).
\<close>

theorem data_points_counter:
  "(collect_all_stats w fs = Inr (d, fs1) \<longrightarrow>
      data_points d = int (length (load_history fs)) + 1) \<and>
   (consecutive_runs ws fs = Inr (ds, fs') \<and> length (load_history fs) \<le> 1000 \<longrightarrow>
      map data_points ds =
        map (\<lambda>k. int (min 1000 (length (load_history fs) + k)) + 1) [0..<length ws] \<and>
      sorted (map data_points ds) \<and>
      (length (load_history fs) + length ws \<le> 1001 \<longrightarrow> sorted_wrt (<) (map data_points ds)))"
proof (intro conjI impI)
  assume "collect_all_stats w fs = Inr (d, fs1)"
  then show "data_points d = int (length (load_history fs)) + 1"
    by (rule run_data_points)
next
  assume a: "consecutive_runs ws fs = Inr (ds, fs') \<and> length (load_history fs) \<le> 1000"
  define n where "n = length (load_history fs)"
  from a have n: "n \<le> 1000" by (simp add: n_def)
  have "map data_points ds =
          map (\<lambda>k. if k = 0 then int n + 1 else int (min 1000 (n + k)) + 1) [0..<length ws]"
    unfolding n_def using a by (simp add: consecutive_runs_data_points)
  also have "\<dots> = map (\<lambda>k. int (min 1000 (n + k)) + 1) [0..<length ws]"
    using n by (intro map_cong) auto
  finally have eq: "map data_points ds = map (\<lambda>k. int (min 1000 (n + k)) + 1) [0..<length ws]" .
  show "map data_points ds =
          map (\<lambda>k. int (min 1000 (length (load_history fs) + k)) + 1) [0..<length ws]"
    using eq by (simp add: n_def)
  have up: "sorted_wrt (<) [0..<length ws]" by simp
  show "sorted (map data_points ds)"
    unfolding eq sorted_wrt_map
    by (rule sorted_wrt_mono_rel [OF _ up]) (simp add: min_def)
  show "sorted_wrt (<) (map data_points ds)" if "length (load_history fs) + length ws \<le> 1001"
    unfolding eq sorted_wrt_map
    by (rule sorted_wrt_mono_rel [OF _ up]) (use that in \<open>simp add: min_def n_def\<close>)
qed

subsection \<open>When a run returns\<close>

text \<open>
  A run returns whenever no arithmetic meets \<open>null\<close>, and it leaves files on
  which the next run returns, too.
\<close>

lemma collect_github_total:
  "(\<exists>gh. collect_github fetched pg = Inr gh) \<longleftrightarrow>
     (case fetched of None \<Rightarrow> True | Some g \<Rightarrow> repo.stars g \<noteq> JNull \<and> repo.forks g \<noteq> JNull) \<and>
     pg ''stars'' \<noteq> Some JNull \<and> pg ''forks'' \<noteq> Some JNull"
proof (cases fetched)
  case None
  show ?thesis
    by (cases "pg ''stars''"; cases "pg ''forks''")
       (auto simp: None collect_github_def delta_def split: jval.splits)
next
  case (Some g)
  show ?thesis
    by (cases "pg ''stars''"; cases "pg ''forks''"; cases "repo.stars g"; cases "repo.forks g")
       (auto simp: Some collect_github_def delta_def split: jval.splits)
qed

lemma run_succeeds:
  assumes "numeric_world w" and "numeric_files fs"
  shows "\<exists>d fs'. collect_all_stats w fs = Inr (d, fs')"
proof -
  from assms(1) have "\<exists>r. sum_subreddits w SUBREDDITS ([], 0, 0, 0, 0, 0) = Inr r"
    unfolding sum_subreddits_total by (simp add: numeric_world_def)
  then obtain ss a b c e f where
    sum: "sum_subreddits w SUBREDDITS ([], 0, 0, 0, 0, 0) = Inr (ss, a, b, c, e, f)"
    using prod_cases6 by metis
  from assms have "\<exists>gh. collect_github (fetch_github_stats (github_resp w))
                      (getd (load_previous_data fs ''github'') Map.empty) = Inr gh"
    unfolding collect_github_total by (simp add: numeric_world_def numeric_files_def previous_def)
  then obtain gh where
    gh: "collect_github (fetch_github_stats (github_resp w))
           (getd (load_previous_data fs ''github'') Map.empty) = Inr gh" ..
  from assms(2) have "\<exists>x. delta a (getd (load_previous_data fs ''reddit'') Map.empty ''total_subscribers'') = Inr x"
    unfolding delta_Inr_iff by (simp add: numeric_files_def previous_def)
  then obtain x where
    x: "delta a (getd (load_previous_data fs ''reddit'') Map.empty ''total_subscribers'') = Inr x" ..
  show ?thesis
    by (simp add: collect_all_stats_def Let_def sum gh x)
qed

lemma numeric_files_after_run:
  assumes "collect_all_stats w fs = Inr (d, fs')"
  shows "numeric_files fs'"
  using assms
  by (rule collect_all_stats_InrD)
     (simp add: numeric_files_def previous_def load_previous_data_def dump_data_def)

lemma consecutive_runs_succeed:
  "list_all numeric_world ws \<Longrightarrow> numeric_files fs \<Longrightarrow>
     \<exists>ds fs'. consecutive_runs ws fs = Inr (ds, fs')"
proof (induction ws arbitrary: fs)
  case Nil
  then show ?case by simp
next
  case (Cons w ws)
  from Cons.prems have "numeric_world w" by simp
  from run_succeeds [OF this Cons.prems(2)] obtain d fs1 where
    run: "collect_all_stats w fs = Inr (d, fs1)" by blast
  from Cons.prems have "list_all numeric_world ws" by simp
  from Cons.IH [OF this numeric_files_after_run [OF run]] obtain ds fs2 where
    "consecutive_runs ws fs1 = Inr (ds, fs2)" by blast
  with run show ?case by simp
qed

subsection \<open>The example runs\<close>

lemma example_fetches:
  "fetch example_world ''moltbot'' = Some example_stats"
  "sub \<noteq> ''moltbot'' \<Longrightarrow> fetch example_world sub = None"
  by (simp add: fetch_def example_world_def example_fetch)
     (simp add: fetch_def example_world_def fetch_subreddit_stats_def)

lemma example_available:
  "List.map_filter (fetch example_world) SUBREDDITS = [example_stats]"
  by (simp add: SUBREDDITS_def example_fetches)

lemma fetch_github_resp_update: "fetch (w\<lparr>github_resp := g\<rparr>) = fetch w"
  by (rule ext) (simp add: fetch_def)

lemma example_github:
  "fetch_github_stats (github_resp example_world) =
     Some \<lparr>repo.stars = JNum 50, repo.forks = JNum 7, repo.open_issues = JNum 3\<rparr>"
  by (simp add: fetch_github_stats_def example_world_def)

lemma numeric_example_world: "numeric_world example_world"
  by (simp add: numeric_world_def example_available example_github) (simp add: example_stats_def)

lemma github_down_available:
  "List.map_filter (fetch github_down_world) SUBREDDITS = [example_stats]"
  by (simp add: github_down_world_def fetch_github_resp_update example_available)

lemma github_down_unavailable: "fetch_github_stats (github_resp github_down_world) = None"
  by (simp add: fetch_github_stats_def github_down_world_def)

lemma numeric_github_down_world: "numeric_world github_down_world"
  by (simp add: numeric_world_def github_down_available github_down_unavailable)
     (simp add: example_stats_def)

lemma example_previous:
  "previous example_files ''reddit'' ''total_subscribers'' = Some (JNum 1000)"
  "previous example_files ''github'' ''stars'' = Some (JNum 40)"
  "previous example_files ''github'' ''forks'' = Some (JNum 7)"
  by (simp_all add: previous_def example_files_def load_previous_data_def)

lemma numeric_example_files: "numeric_files example_files"
  by (simp add: numeric_files_def example_previous)

lemma no_previous: "data_file fs = None \<Longrightarrow> previous fs obj field = None"
  by (simp add: previous_def load_previous_data_def)

lemma numeric_no_data_file: "data_file fs = None \<Longrightarrow> numeric_files fs"
  by (simp add: numeric_files_def no_previous)


lemma example_history_length:
  "length (load_history example_files) = 2" "length (load_history full_files) = 1000"
  by (simp_all add: load_history_def example_files_def full_files_def)

text \<open>
  A \<open>null\<close> subscriber count in a community result ends the run: the addition to
  \<open>total_subs\<close> raises \<open>TypeError\<close>, and no file is written.
\<close>

lemma null_subscribers_run_raises:
  "collect_all_stats null_subscribers_world fs = Inl TypeError"
proof -
  have "fetch null_subscribers_world ''clawdbot'' = None"
    by (simp add: fetch_def null_subscribers_world_def fetch_subreddit_stats_def)
  moreover have "\<exists>r. fetch null_subscribers_world ''moltbot'' = Some r \<and> subscribers r = JNull"
    by (simp add: fetch_def null_subscribers_world_def fetch_subreddit_stats_def posts_data_of_def
        null_subscribers_about_def)
  ultimately have "sum_subreddits null_subscribers_world SUBREDDITS ([], 0, 0, 0, 0, 0) = Inl TypeError"
    by (auto simp: SUBREDDITS_def)
  then show ?thesis by (simp add: collect_all_stats_def)
qed

subsection \<open>The claims on the examples\<close>

text \<open>
  Claim C2, as stated, fails: on a full history two consecutive runs both have
  \<open>data_points = 1001\<close>, since the history is cut back to 1000 entries after each.
\<close>

theorem data_points_strict_counterexample:
  "\<not> isl (consecutive_runs [example_world, example_world] full_files) \<and>
   map data_points (fst (projr (consecutive_runs [example_world, example_world] full_files)))
     = [1001, 1001]"
proof -
  have "list_all numeric_world [example_world, example_world]"
    by (simp add: numeric_example_world)
  moreover have "numeric_files full_files"
    by (rule numeric_no_data_file) (simp add: full_files_def)
  ultimately obtain ds fs' where
    runs: "consecutive_runs [example_world, example_world] full_files = Inr (ds, fs')"
    using consecutive_runs_succeed by blast
  have "[0..<length [example_world, example_world]] = [0, 1]"
    by (simp add: upt_conv_Cons)
  with consecutive_runs_data_points [OF runs] have "map data_points ds = [1001, 1001]"
    by (simp add: example_history_length)
  with runs show ?thesis by simp
qed

text \<open>
  Witness for C2: three consecutive runs from the example files, whose history has
  two entries, count 3, 4, 5.
\<close>

theorem data_points_counter_witness:
  "\<not> isl (collect_all_stats example_world example_files) \<and>
   data_points (fst (projr (collect_all_stats example_world example_files))) = 3 \<and>
   \<not> isl (consecutive_runs [example_world, github_down_world, example_world] example_files) \<and>
   map data_points
     (fst (projr (consecutive_runs [example_world, github_down_world, example_world] example_files)))
     = [3, 4, 5]"
proof -
  from run_succeeds [OF numeric_example_world numeric_example_files] obtain d fs1 where
    run: "collect_all_stats example_world example_files = Inr (d, fs1)" by blast
  have "list_all numeric_world [example_world, github_down_world, example_world]"
    by (simp add: numeric_example_world numeric_github_down_world)
  from consecutive_runs_succeed [OF this numeric_example_files] obtain ds fs' where
    runs: "consecutive_runs [example_world, github_down_world, example_world] example_files
             = Inr (ds, fs')" by blast
  have up: "[0..<length [example_world, github_down_world, example_world]] = [0, 1, 2]"
    by (simp add: upt_conv_Cons)
  from data_points_counter [of example_world example_files d fs1
      "[example_world, github_down_world, example_world]" ds fs'] run runs
  have "data_points d = 3 \<and> map data_points ds = [3, 4, 5]"
    unfolding up by (simp add: example_history_length)
  with run runs show ?thesis by simp
qed

text \<open>
  Claim C1, as stated, fails: with the repository unavailable and a previous snapshot
  of 40 stars and 7 forks, the deltas are \<open>-40\<close> and \<open>-7\<close>, not 0.
\<close>

theorem github_deltas_counterexample:
  "fetch_github_stats (github_resp github_down_world) = None \<and>
   \<not> isl (collect_all_stats github_down_world example_files) \<and>
   stars_delta (github (fst (projr (collect_all_stats github_down_world example_files)))) = - 40 \<and>
   forks_delta (github (fst (projr (collect_all_stats github_down_world example_files)))) = - 7"
proof -
  from run_succeeds [OF numeric_github_down_world numeric_example_files] obtain d fs' where
    run: "collect_all_stats github_down_world example_files = Inr (d, fs')" by blast
  then obtain gh where
    gh: "collect_github (fetch_github_stats (github_resp github_down_world))
           (getd (load_previous_data example_files ''github'') Map.empty) = Inr gh" and
    d: "github d = gh"
    by (rule collect_all_stats_InrD) simp
  from collect_github_None [OF gh [unfolded github_down_unavailable]] d example_previous
  have "stars_delta (github d) = - 40 \<and> forks_delta (github d) = - 7"
    by (simp add: previous_def)
  with run github_down_unavailable show ?thesis by simp
qed

text \<open>
  Witness for C1: the repository part of the snapshot with the repository
  unavailable, after the example snapshot and on a first run.
\<close>

theorem github_unavailable_zeros_witness:
  "\<not> isl (collect_all_stats github_down_world example_files) \<and>
   github (fst (projr (collect_all_stats github_down_world example_files)))
     = \<lparr>stars = 0, stars_delta = - 40, forks = 0, forks_delta = - 7, open_issues = JNum 0\<rparr> \<and>
   \<not> isl (collect_all_stats github_down_world no_files) \<and>
   github (fst (projr (collect_all_stats github_down_world no_files)))
     = \<lparr>stars = 0, stars_delta = 0, forks = 0, forks_delta = 0, open_issues = JNum 0\<rparr>"
proof -
  from run_succeeds [OF numeric_github_down_world numeric_example_files] obtain d fs' where
    run: "collect_all_stats github_down_world example_files = Inr (d, fs')" by blast
  have nf: "data_file no_files = None" by (simp add: no_files_def)
  from run_succeeds [OF numeric_github_down_world numeric_no_data_file [OF nf]] obtain d0 fs0 where
    run0: "collect_all_stats github_down_world no_files = Inr (d0, fs0)" by blast
  from github_unavailable_zeros [OF github_down_unavailable run]
  have "github d = \<lparr>stars = 0, stars_delta = - 40, forks = 0, forks_delta = - 7, open_issues = JNum 0\<rparr>"
    by (cases "github d") (simp add: example_previous)
  moreover from github_unavailable_zeros [OF github_down_unavailable run0]
  have "github d0 = \<lparr>stars = 0, stars_delta = 0, forks = 0, forks_delta = 0, open_issues = JNum 0\<rparr>"
    by (cases "github d0") (simp add: nf no_previous)
  ultimately show ?thesis using run run0 by simp
qed

text \<open>
  Witness for C6: the example run has 600 subscribers after 1000, a delta of
  \<open>-400\<close>; on a first run the delta is 0.
\<close>

theorem delta_subscribers_against_previous_witness:
  "\<not> isl (collect_all_stats example_world example_files) \<and>
   total_subscribers (reddit (fst (projr (collect_all_stats example_world example_files)))) = 600 \<and>
   delta_subscribers (reddit (fst (projr (collect_all_stats example_world example_files)))) = 600 - 1000 \<and>
   \<not> isl (collect_all_stats example_world no_files) \<and>
   delta_subscribers (reddit (fst (projr (collect_all_stats example_world no_files)))) = 0"
proof -
  from run_succeeds [OF numeric_example_world numeric_example_files] obtain d fs' where
    run: "collect_all_stats example_world example_files = Inr (d, fs')" by blast
  have nf: "data_file no_files = None" by (simp add: no_files_def)
  from run_succeeds [OF numeric_example_world numeric_no_data_file [OF nf]] obtain d0 fs0 where
    run0: "collect_all_stats example_world no_files = Inr (d0, fs0)" by blast
  have total: "total_subscribers (reddit d) = 600"
    using run_reddit(1,2) [OF run] by (simp add: example_available example_stats_def)
  from delta_subscribers_against_previous [OF run] total
  have "delta_subscribers (reddit d) = 600 - 1000"
    by (simp add: example_previous)
  moreover from delta_subscribers_against_previous [OF run0]
  have "delta_subscribers (reddit d0) = 0"
    by (simp add: nf)
  ultimately show ?thesis using run run0 total by simp
qed

text \<open>
  Witness for C7: in the example run only \<open>moltbot\<close> is available; the totals are
  its numbers and \<open>clawdbot\<close>, whose metadata request answered 404, is absent.
\<close>

theorem totals_over_available_witness:
  "\<not> isl (collect_all_stats example_world example_files) \<and>
   reddit (fst (projr (collect_all_stats example_world example_files))) =
     \<lparr>total_subscribers = 600, delta_subscribers = - 400, total_active = 0, total_posts_24h = 2,
      total_comments = 3, total_upvotes = 25, subreddits = [example_stats]\<rparr> \<and>
   metadata_failed (about_resp example_world ''clawdbot'') \<and>
   fetch example_world ''clawdbot'' = None \<and>
   ''clawdbot'' \<notin> key ` set (subreddits (reddit (fst (projr (collect_all_stats example_world example_files)))))"
proof -
  from run_succeeds [OF numeric_example_world numeric_example_files] obtain d fs' where
    run: "collect_all_stats example_world example_files = Inr (d, fs')" by blast
  have failed: "metadata_failed (about_resp example_world ''clawdbot'')"
    by (simp add: metadata_failed_def example_world_def)
  have dl: "delta_subscribers (reddit d) = total_subscribers (reddit d) - 1000"
    using run by (rule collect_all_stats_InrD) (simp add: example_previous delta_simps)
  note t = totals_over_available [OF run]
  from t have sr: "subreddits (reddit d) = [example_stats]"
    by (simp add: example_available)
  from t have "total_subscribers (reddit d) = 600" "total_active (reddit d) = 0"
    "total_posts_24h (reddit d) = 2" "total_comments (reddit d) = 3"
    "reddit.total_upvotes (reddit d) = 25"
    unfolding sr by (simp_all add: example_stats_def)
  with sr dl have "reddit d =
     \<lparr>total_subscribers = 600, delta_subscribers = - 400, total_active = 0, total_posts_24h = 2,
      total_comments = 3, total_upvotes = 25, subreddits = [example_stats]\<rparr>"
    by (cases "reddit d") simp
  moreover from t failed have "fetch example_world ''clawdbot'' = None"
    "''clawdbot'' \<notin> key ` set (subreddits (reddit d))" by blast+
  ultimately show ?thesis using run failed by simp
qed

text \<open>
  Witness for C8: the append to a history of 1000 entries and to a history of one
  entry, and the example run on the full history.
\<close>

theorem history_at_most_1000_witness:
  "length (append_history (replicate 1000 [(''timestamp'', HStr ''old'')]) [(''timestamp'', HStr ''new'')])
     \<le> 1000 \<and>
   append_history (replicate 1000 [(''timestamp'', HStr ''old'')]) [(''timestamp'', HStr ''new'')]
     = replicate 999 [(''timestamp'', HStr ''old'')] @ [[(''timestamp'', HStr ''new'')]] \<and>
   append_history [[(''timestamp'', HStr ''old'')]] [(''timestamp'', HStr ''new'')]
     = [[(''timestamp'', HStr ''old'')], [(''timestamp'', HStr ''new'')]] \<and>
   \<not> isl (collect_all_stats example_world full_files) \<and>
   length (load_history (snd (projr (collect_all_stats example_world full_files)))) \<le> 1000"
proof -
  have nf: "data_file full_files = None" by (simp add: full_files_def)
  from run_succeeds [OF numeric_example_world numeric_no_data_file [OF nf]] obtain d fs' where
    run: "collect_all_stats example_world full_files = Inr (d, fs')" by blast
  have tl: "tl (replicate 1000 x) = replicate 999 x" for x :: history_entry
    by simp
  from history_at_most_1000 [of "replicate 1000 [(''timestamp'', HStr ''old'')]"
         "[(''timestamp'', HStr ''new'')]" example_world full_files d fs']
       history_at_most_1000 [of "[[(''timestamp'', HStr ''old'')]]"
         "[(''timestamp'', HStr ''new'')]" example_world full_files d fs'] run
  show ?thesis by (simp add: tl)
qed

end
